theory Spec2Isabelle
  imports Complex_Main "HOL-Library.Multiset"
begin

section \<open>Data model (models.py)\<close>

text \<open>
  The ORM object graph is embedded as nested records: a gathering row carries the list of
  its member rows (the relationship \<open>Gathering.members\<close>), a member row the amounts of
  its expense and payment rows (\<open>Member.expenses\<close>, \<open>Member.payments\<close>). The
  members are listed in primary-key order, which is insertion order: a new row is
  appended, a row updated in place keeps its position. The expenses and the payments of
  a member are bags of amounts: the relationships name no order, the joined load of
  \<open>get_gathering\<close> returns the rows of a member in whatever order the database scans
  them, and no operation looks at more than their number and their sum. Amounts are the
  \<open>Float\<close> columns of the source, taken here as real numbers; the scenarios below use
  small whole numbers only, on which the arithmetic of doubles is exact. Creation
  timestamps play no part in any operation and are left out.
\<close>

datatype GatheringStatus = OPEN | CLOSED

record Member =
  name :: string
  expenses :: "real multiset"
  payments :: "real multiset"

record Gathering =
  gathering_id :: string
  total_members :: int
  status :: GatheringStatus
  members :: "Member list"

text \<open>
  Every failure of the source is a \<open>ValueError\<close> told apart by its message; the
  constructors name the messages. \<open>ZeroDivisionError\<close>, \<open>AttributeError\<close> and
  \<open>OverflowError\<close> are the built-in exceptions the modelled code could raise besides;
  the last is what the SQLite driver raises for an integer that does not fit the 64-bit
  \<open>INTEGER\<close> column.
\<close>

datatype error =
    InvalidId             \<comment> \<open>Gathering ID must start with a valid date ...\<close>
  | AlreadyExists         \<comment> \<open>Gathering with ID ... already exists\<close>
  | NotFound              \<comment> \<open>Gathering ... not found\<close>
  | GatheringClosed       \<comment> \<open>Cannot ... closed gathering ...\<close>
  | AlreadyClosed         \<comment> \<open>Gathering ... is already closed\<close>
  | InvalidAmount         \<comment> \<open>Expense amount must be positive\<close>
  | MemberNotFound        \<comment> \<open>Member ... not found in gathering ...\<close>
  | DuplicateName         \<comment> \<open>Member ... already exists in gathering ...\<close>
  | MemberHasActivity     \<comment> \<open>Cannot remove member ... who has recorded expenses / payments\<close>
  | CannotFindMember      \<comment> \<open>Cannot find member ... after ...\<close>
  | ZeroDivisionError
  | AttributeError
  | OverflowError

section \<open>Ledger (the computed properties of models.py)\<close>

text \<open>Python's true division of a float by an integer column.\<close>

definition truediv :: "real \<Rightarrow> int \<Rightarrow> error + real" where
  "truediv a b = (if b = 0 then Inl ZeroDivisionError else Inr (a / real_of_int b))"

text \<open>\<open>Member.total_expenses\<close> and \<open>Member.total_payments\<close>.\<close>

definition total_expenses :: "Member \<Rightarrow> real" where
  "total_expenses m = sum_mset (expenses m)"

definition total_payments :: "Member \<Rightarrow> real" where
  "total_payments m = sum_mset (payments m)"

text \<open>\<open>Gathering.total_expenses\<close> and \<open>Gathering.total_payments\<close>.\<close>

definition gathering_total_expenses :: "Gathering \<Rightarrow> real" where
  "gathering_total_expenses g = sum_list (map (\<lambda>m. sum_mset (expenses m)) (members g))"


text \<open>\<open>Gathering.expense_per_member\<close>: the guard, then the division.\<close>

definition expense_per_member :: "Gathering \<Rightarrow> error + real" where
  "expense_per_member g =
     (if total_members g = 0 then Inr 0
      else truediv (sum_list (map (\<lambda>m. sum_mset (expenses m)) (members g))) (total_members g))"

text \<open>\<open>Member.balance\<close>; the owning gathering is passed along.\<close>

definition balance :: "Gathering \<Rightarrow> Member \<Rightarrow> error + real" where
  "balance g m =
     (case expense_per_member g of
        Inl e \<Rightarrow> Inl e
      | Inr epm \<Rightarrow> Inr (total_expenses m + total_payments m - epm))"

text \<open>\<open>Member.status\<close>.\<close>

definition member_status :: "Gathering \<Rightarrow> Member \<Rightarrow> error + string" where
  "member_status g m =
     (case balance g m of
        Inl e \<Rightarrow> Inl e
      | Inr b \<Rightarrow> Inr (if \<bar>b\<bar> < 0.01 then ''settled''
                     else if b > 0 then ''is owed money'' else ''owes money''))"

section \<open>Gathering ids and placeholder names\<close>

text \<open>\<open>str.split(sep)\<close> for a one-character separator.\<close>

fun split_on :: "char \<Rightarrow> string \<Rightarrow> string list" where
  "split_on c [] = [[]]"
| "split_on c (x # xs) =
     (if x = c then [] # split_on c xs
      else (case split_on c xs of [] \<Rightarrow> [[x]] | p # ps \<Rightarrow> (x # p) # ps))"

text \<open>\<open>sep.join(parts)\<close>.\<close>

fun join :: "string \<Rightarrow> string list \<Rightarrow> string" where
  "join sep [] = []"
| "join sep [p] = p"
| "join sep (p # q # ps) = p @ sep @ join sep (q # ps)"

text \<open>The decimal digits; the value of a digit is its place in the list.\<close>

definition decimal_digits :: string where
  "decimal_digits = ''0123456789''"

fun index_of :: "'a \<Rightarrow> 'a list \<Rightarrow> nat option" where
  "index_of c [] = None"
| "index_of c (x # xs) = (if x = c then Some 0 else map_option Suc (index_of c xs))"

definition digit_val :: "char \<Rightarrow> nat option" where
  "digit_val c = index_of c decimal_digits"

text \<open>
  The month and day groups of \<open>_strptime\<close>'s regular expression:
  \<open>1[0-2]|0[1-9]|[1-9]\<close> and \<open>3[0-1]|[1-2]\d|0[1-9]|[1-9]| [1-9]\<close>. Each returns the
  number read, for exactly the strings the group matches in full.
\<close>

definition month_group :: "string \<Rightarrow> nat option" where
  "month_group s =
     (case s of
        [a, b] \<Rightarrow>
          (case (digit_val a, digit_val b) of
             (Some x, Some y) \<Rightarrow>
               if x = 1 \<and> y \<le> 2 then Some (10 + y)
               else if x = 0 \<and> 1 \<le> y then Some y else None
           | _ \<Rightarrow> None)
      | [a] \<Rightarrow> (case digit_val a of Some x \<Rightarrow> if 1 \<le> x then Some x else None | None \<Rightarrow> None)
      | _ \<Rightarrow> None)"

definition day_group :: "string \<Rightarrow> nat option" where
  "day_group s =
     (case s of
        [a, b] \<Rightarrow>
          (case (digit_val a, digit_val b) of
             (Some x, Some y) \<Rightarrow>
               if x = 3 \<and> y \<le> 1 then Some (30 + y)
               else if 1 \<le> x \<and> x \<le> 2 then Some (10 * x + y)
               else if x = 0 \<and> 1 \<le> y then Some y else None
           | (None, Some y) \<Rightarrow> if a = CHR '' '' \<and> 1 \<le> y then Some y else None
           | _ \<Rightarrow> None)
      | [a] \<Rightarrow> (case digit_val a of Some x \<Rightarrow> if 1 \<le> x then Some x else None | None \<Rightarrow> None)
      | _ \<Rightarrow> None)"

text \<open>The calendar check of \<open>datetime\<close>: years 1 to 9999, days of the month.\<close>

definition is_leap :: "nat \<Rightarrow> bool" where
  "is_leap y = (y mod 4 = 0 \<and> (y mod 100 \<noteq> 0 \<or> y mod 400 = 0))"

definition days_in_month :: "nat \<Rightarrow> nat \<Rightarrow> nat" where
  "days_in_month y m =
     (if m = 2 then (if is_leap y then 29 else 28)
      else if m = 4 \<or> m = 6 \<or> m = 9 \<or> m = 11 then 30 else 31)"

definition valid_date :: "nat \<Rightarrow> nat \<Rightarrow> nat \<Rightarrow> bool" where
  "valid_date y m d = (1 \<le> y \<and> y \<le> 9999 \<and> 1 \<le> m \<and> m \<le> 12 \<and> 1 \<le> d \<and> d \<le> days_in_month y m)"

text \<open>
  \<open>datetime.strptime(s, "%Y-%m-%d")\<close>: the compiled pattern is four digits, a hyphen, the
  month group, a hyphen, the day group; the whole string must be consumed, and the date
  must exist. \<open>None\<close> stands for the \<open>ValueError\<close>. The month group is followed by a
  hyphen, so it is the text up to the next hyphen. Identifiers are taken over ASCII.
\<close>

definition strptime_Ymd :: "string \<Rightarrow> (nat \<times> nat \<times> nat) option" where
  "strptime_Ymd s =
     (case s of
        y1 # y2 # y3 # y4 # h # rest \<Rightarrow>
          (case (digit_val y1, digit_val y2, digit_val y3, digit_val y4) of
             (Some a, Some b, Some c, Some d) \<Rightarrow>
               if h \<noteq> CHR ''-'' then None
               else
                 (let ms = takeWhile (\<lambda>x. x \<noteq> CHR ''-'') rest;
                      r = dropWhile (\<lambda>x. x \<noteq> CHR ''-'') rest
                  in case r of
                       [] \<Rightarrow> None
                     | _ # ds \<Rightarrow>
                         (case (month_group ms, day_group ds) of
                            (Some mo, Some dy) \<Rightarrow>
                              (let y = 1000 * a + 100 * b + 10 * c + d
                               in if valid_date y mo dy then Some (y, mo, dy) else None)
                          | _ \<Rightarrow> None))
           | _ \<Rightarrow> None)
      | _ \<Rightarrow> None)"

text \<open>The validation at the head of \<open>create_gathering\<close>.\<close>

definition date_part :: "string \<Rightarrow> string" where
  "date_part gid = join ''-'' (take 3 (split_on CHR ''-'' gid))"

text \<open>The format \<open>f"member{i:04d}"\<close>.\<close>

definition digit_char :: "nat \<Rightarrow> char" where
  "digit_char n = decimal_digits ! (n mod 10)"

fun dec_digits :: "nat \<Rightarrow> string" where
  "dec_digits n = (if n < 10 then [digit_char n] else dec_digits (n div 10) @ [digit_char (n mod 10)])"

definition zfill :: "nat \<Rightarrow> string \<Rightarrow> string" where
  "zfill w s = replicate (w - length s) CHR ''0'' @ s"

definition format_04d :: "int \<Rightarrow> string" where
  "format_04d i =
     (if i < 0 then CHR ''-'' # zfill 3 (dec_digits (nat (- i))) else zfill 4 (dec_digits (nat i)))"

definition placeholder_name :: "int \<Rightarrow> string" where
  "placeholder_name i = ''member'' @ format_04d i"

section \<open>The store (DatabaseManager)\<close>

text \<open>
  The database maps a gathering id to its row with the rows hanging from it. Every
  operation returns its result, or the error it raises, together with the database it
  leaves behind: a raise before the commit rolls the session back, so the database is the
  one the operation started from.
\<close>

type_synonym db = "string \<rightharpoonup> Gathering"

text \<open>
  A row fetched with \<open>.first()\<close> and then changed or deleted through the session is the
  first row, in table order, that satisfies the filter.
\<close>

fun update_first :: "('a \<Rightarrow> bool) \<Rightarrow> ('a \<Rightarrow> 'a) \<Rightarrow> 'a list \<Rightarrow> 'a list" where
  "update_first P f [] = []"
| "update_first P f (x # xs) = (if P x then f x # xs else x # update_first P f xs)"

fun delete_first :: "('a \<Rightarrow> bool) \<Rightarrow> 'a list \<Rightarrow> 'a list" where
  "delete_first P [] = []"
| "delete_first P (x # xs) = (if P x then xs else x # delete_first P xs)"

text \<open>
  \<open>Member.name.like("member%")\<close> as SQLite evaluates it: the name begins with the six
  letters, which \<open>LIKE\<close> compares without regard to ASCII case.
\<close>

definition like_member :: "string \<Rightarrow> bool" where
  "like_member s =
     (case s of
        c1 # c2 # c3 # c4 # c5 # c6 # _ \<Rightarrow>
          (c1 = CHR ''m'' \<or> c1 = CHR ''M'') \<and> (c2 = CHR ''e'' \<or> c2 = CHR ''E'') \<and>
          (c3 = CHR ''m'' \<or> c3 = CHR ''M'') \<and> (c4 = CHR ''b'' \<or> c4 = CHR ''B'') \<and>
          (c5 = CHR ''e'' \<or> c5 = CHR ''E'') \<and> (c6 = CHR ''r'' \<or> c6 = CHR ''R'')
      | _ \<Rightarrow> False)"

text \<open>
  The range of the \<open>INTEGER\<close> column \<open>total_members\<close>. The commit of
  \<open>create_gathering\<close> writes the count it was given; outside the range the driver
  raises, the session is rolled back and nothing is stored.
\<close>

definition fits_integer_column :: "int \<Rightarrow> bool" where
  "fits_integer_column n = (- (2 ^ 63) \<le> n \<and> n \<le> 2 ^ 63 - 1)"

text \<open>
  \<open>get_gathering\<close> loads the gathering with its members, their expenses and their
  payments in one joined query. The query has no \<open>ORDER BY\<close>; the expense and payment
  rows of a member arrive in the order of the scan, which the bags leave open.
\<close>

definition get_gathering :: "db \<Rightarrow> string \<Rightarrow> Gathering option" where
  "get_gathering d gid = d gid"

definition create_gathering :: "db \<Rightarrow> string \<Rightarrow> int \<Rightarrow> (error + Gathering option) \<times> db" where
  "create_gathering d gid n =
     (if strptime_Ymd (date_part gid) = None then (Inl InvalidId, d)
      else
        (case d gid of
           Some existing \<Rightarrow> (Inl AlreadyExists, d)
         | None \<Rightarrow>
             if \<not> fits_integer_column n then (Inl OverflowError, d)
             else
               (let g = \<lparr>gathering_id = gid, total_members = n, status = OPEN,
                         members = map (\<lambda>i. \<lparr>name = placeholder_name i, expenses = {#}, payments = {#}\<rparr>)
                                       [1..n]\<rparr>;
                    d' = d(gid \<mapsto> g)
                in (Inr (get_gathering d' gid), d'))))"

definition add_member :: "db \<Rightarrow> string \<Rightarrow> string \<Rightarrow> (error + Member) \<times> db" where
  "add_member d gid member_name =
     (case d gid of
        None \<Rightarrow> (Inl NotFound, d)
      | Some g \<Rightarrow>
          if status g = CLOSED then (Inl GatheringClosed, d)
          else
            (case find (\<lambda>m. name m = member_name) (members g) of
               Some existing \<Rightarrow> (Inl DuplicateName, d)
             | None \<Rightarrow>
                 (let member = \<lparr>name = member_name, expenses = {#}, payments = {#}\<rparr>
                  in (Inr member,
                      d(gid \<mapsto> g\<lparr>members := members g @ [member],
                                  total_members := total_members g + 1\<rparr>)))))"

definition remove_member :: "db \<Rightarrow> string \<Rightarrow> string \<Rightarrow> (error + unit) \<times> db" where
  "remove_member d gid member_name =
     (case d gid of
        None \<Rightarrow> (Inl NotFound, d)
      | Some g \<Rightarrow>
          if status g = CLOSED then (Inl GatheringClosed, d)
          else
            (case find (\<lambda>m. name m = member_name) (members g) of
               None \<Rightarrow> (Inl MemberNotFound, d)
             | Some member \<Rightarrow>
                 if size (expenses member) > 0 then (Inl MemberHasActivity, d)
                 else if size (payments member) > 0 then (Inl MemberHasActivity, d)
                 else (Inr (),
                       d(gid \<mapsto> g\<lparr>members := delete_first (\<lambda>m. name m = member_name) (members g),
                                   total_members := total_members g - 1\<rparr>))))"

text \<open>
  The tail shared by \<open>add_expense\<close> and \<open>record_payment\<close>: after the commit the
  gathering is loaded again and the member is looked up in it by name. The load joins
  the expense and payment rows without an order; the member returned carries them as the
  bag they are.
\<close>

definition refreshed :: "db \<Rightarrow> string \<Rightarrow> string \<Rightarrow> error + Gathering \<times> Member" where
  "refreshed d gid member_name =
     (case get_gathering d gid of
        None \<Rightarrow> Inl AttributeError
      | Some updated_gathering \<Rightarrow>
          (case find (\<lambda>m. name m = member_name) (members updated_gathering) of
             None \<Rightarrow> Inl CannotFindMember
           | Some updated_member \<Rightarrow> Inr (updated_gathering, updated_member)))"

definition add_expense :: "db \<Rightarrow> string \<Rightarrow> string \<Rightarrow> real \<Rightarrow> (error + Gathering \<times> Member) \<times> db" where
  "add_expense d gid member_name amount =
     (if amount \<le> 0 then (Inl InvalidAmount, d)
      else
        (case d gid of
           None \<Rightarrow> (Inl NotFound, d)
         | Some g \<Rightarrow>
             if status g = CLOSED then (Inl GatheringClosed, d)
             else
               (case find (\<lambda>m. name m = member_name) (members g) of
                  Some member \<Rightarrow>
                    (let d' = d(gid \<mapsto> g\<lparr>members :=
                                 update_first (\<lambda>m. name m = member_name)
                                   (\<lambda>m. m\<lparr>expenses := add_mset amount (expenses m)\<rparr>) (members g)\<rparr>)
                     in (refreshed d' gid member_name, d'))
                | None \<Rightarrow>
                    (case filter (\<lambda>m. like_member (name m)) (members g) of
                       [] \<Rightarrow> (Inl MemberNotFound, d)
                     | unnamed # others \<Rightarrow>
                         (let d' = d(gid \<mapsto> g\<lparr>members :=
                                      update_first (\<lambda>m. like_member (name m))
                                        (\<lambda>m. m\<lparr>name := member_name,
                                                expenses := add_mset amount (expenses m)\<rparr>) (members g)\<rparr>)
                          in (refreshed d' gid member_name, d'))))))"

definition record_payment :: "db \<Rightarrow> string \<Rightarrow> string \<Rightarrow> real \<Rightarrow> (error + Gathering \<times> Member) \<times> db" where
  "record_payment d gid member_name amount =
     (case d gid of
        None \<Rightarrow> (Inl NotFound, d)
      | Some g \<Rightarrow>
          if status g = CLOSED then (Inl GatheringClosed, d)
          else
            (case find (\<lambda>m. name m = member_name) (members g) of
               None \<Rightarrow> (Inl MemberNotFound, d)
             | Some member \<Rightarrow>
                 (let d' = d(gid \<mapsto> g\<lparr>members :=
                              update_first (\<lambda>m. name m = member_name)
                                (\<lambda>m. m\<lparr>payments := add_mset amount (payments m)\<rparr>) (members g)\<rparr>)
                  in (refreshed d' gid member_name, d'))))"

definition rename_member :: "db \<Rightarrow> string \<Rightarrow> string \<Rightarrow> string \<Rightarrow> (error + Member) \<times> db" where
  "rename_member d gid old_name new_name =
     (case d gid of
        None \<Rightarrow> (Inl NotFound, d)
      | Some g \<Rightarrow>
          if status g = CLOSED then (Inl GatheringClosed, d)
          else
            (case find (\<lambda>m. name m = old_name) (members g) of
               None \<Rightarrow> (Inl MemberNotFound, d)
             | Some member \<Rightarrow>
                 (case find (\<lambda>m. name m = new_name) (members g) of
                    Some existing \<Rightarrow> (Inl DuplicateName, d)
                  | None \<Rightarrow>
                      (let d' = d(gid \<mapsto> g\<lparr>members :=
                                   update_first (\<lambda>m. name m = old_name)
                                     (\<lambda>m. m\<lparr>name := new_name\<rparr>) (members g)\<rparr>)
                       in (case refreshed d' gid new_name of
                             Inl e \<Rightarrow> (Inl e, d')
                           | Inr (ug, um) \<Rightarrow> (Inr um, d'))))))"

definition close_gathering :: "db \<Rightarrow> string \<Rightarrow> (error + Gathering option) \<times> db" where
  "close_gathering d gid =
     (case d gid of
        None \<Rightarrow> (Inl NotFound, d)
      | Some g \<Rightarrow>
          if status g = CLOSED then (Inl AlreadyClosed, d)
          else (let d' = d(gid \<mapsto> g\<lparr>status := CLOSED\<rparr>) in (Inr (get_gathering d' gid), d')))"

definition delete_gathering :: "db \<Rightarrow> string \<Rightarrow> bool \<Rightarrow> (error + unit) \<times> db" where
  "delete_gathering d gid force =
     (case d gid of
        None \<Rightarrow> (Inl NotFound, d)
      | Some g \<Rightarrow>
          if status g = CLOSED \<and> \<not> force then (Inl GatheringClosed, d)
          else (Inr (), d(gid := None)))"

section \<open>The service (services.py)\<close>

text \<open>
  \<open>GatheringService\<close> hands every mutation to the store unchanged; its own computation is
  \<open>calculate_reimbursements\<close>, which fills a dictionary keyed by member name.
\<close>

definition calculate_reimbursements :: "db \<Rightarrow> string \<Rightarrow> error + (string \<rightharpoonup> real)" where
  "calculate_reimbursements d gid =
     (case get_gathering d gid of
        None \<Rightarrow> Inl NotFound
      | Some g \<Rightarrow>
          (case expense_per_member g of
             Inl e \<Rightarrow> Inl e
           | Inr epm \<Rightarrow>
               Inr (fold (\<lambda>m r. r(name m \<mapsto> epm - total_expenses m + total_payments m))
                         (members g) Map.empty)))"

section \<open>Commands (the dispatch of gatherings.py)\<close>

datatype command =
    Create string int
  | AddExpense string string real
  | RecordPayment string string real
  | RenameMember string string string
  | AddMember string string
  | RemoveMember string string
  | Close string
  | Delete string bool

fun execute :: "db \<Rightarrow> command \<Rightarrow> db" where
  "execute d (Create gid n) = snd (create_gathering d gid n)"
| "execute d (AddExpense gid nm a) = snd (add_expense d gid nm a)"
| "execute d (RecordPayment gid nm a) = snd (record_payment d gid nm a)"
| "execute d (RenameMember gid old new) = snd (rename_member d gid old new)"
| "execute d (AddMember gid nm) = snd (add_member d gid nm)"
| "execute d (RemoveMember gid nm) = snd (remove_member d gid nm)"
| "execute d (Close gid) = snd (close_gathering d gid)"
| "execute d (Delete gid force) = snd (delete_gathering d gid force)"

fun execute_all :: "db \<Rightarrow> command list \<Rightarrow> db" where
  "execute_all d [] = d"
| "execute_all d (c # cs) = execute_all (execute d c) cs"

section \<open>Derived quantities and scenarios\<close>






text \<open>A gathering of one member who has paid 40 into the pool.\<close>

definition paid_once :: db where
  "paid_once = execute_all Map.empty
     [Create ''2025-03-01-x'' 1, RecordPayment ''2025-03-01-x'' ''member0001'' 40]"

definition paid_once_gathering :: Gathering where
  "paid_once_gathering =
     \<lparr>gathering_id = ''2025-03-01-x'', total_members = 1, status = OPEN,
      members = [\<lparr>name = ''member0001'', expenses = {#}, payments = {#40#}\<rparr>]\<rparr>"

text \<open>The run of \<open>test_example.py\<close> up to the third expense.\<close>

definition friendsbeer :: db where
  "friendsbeer = execute_all Map.empty
     [Create ''2025-03-01-friendsbeer'' 5,
      AddExpense ''2025-03-01-friendsbeer'' ''Roy'' 50,
      AddExpense ''2025-03-01-friendsbeer'' ''David'' 100,
      AddExpense ''2025-03-01-friendsbeer'' ''Felix'' 50]"

definition friendsbeer_gathering :: Gathering where
  "friendsbeer_gathering =
     \<lparr>gathering_id = ''2025-03-01-friendsbeer'', total_members = 5, status = OPEN,
      members = [\<lparr>name = ''Roy'', expenses = {#50#}, payments = {#}\<rparr>,
                 \<lparr>name = ''David'', expenses = {#100#}, payments = {#}\<rparr>,
                 \<lparr>name = ''Felix'', expenses = {#50#}, payments = {#}\<rparr>,
                 \<lparr>name = ''member0004'', expenses = {#}, payments = {#}\<rparr>,
                 \<lparr>name = ''member0005'', expenses = {#}, payments = {#}\<rparr>]\<rparr>"

text \<open>A gathering of one member, created and then closed.\<close>

definition closed_example :: db where
  "closed_example = execute_all Map.empty [Create ''2025-03-01-x'' 1, Close ''2025-03-01-x'']"

definition closed_example_gathering :: Gathering where
  "closed_example_gathering =
     \<lparr>gathering_id = ''2025-03-01-x'', total_members = 1, status = CLOSED,
      members = [\<lparr>name = ''member0001'', expenses = {#}, payments = {#}\<rparr>]\<rparr>"

text \<open>
  The member run of \<open>test_example.py\<close>: three placeholders, then Charlie is added and
  pays 25.
\<close>

definition membertest :: db where
  "membertest = execute_all Map.empty
     [Create ''2025-03-05-membertest'' 3,
      AddMember ''2025-03-05-membertest'' ''Charlie'',
      AddExpense ''2025-03-05-membertest'' ''Charlie'' 25]"

definition membertest_gathering :: Gathering where
  "membertest_gathering =
     \<lparr>gathering_id = ''2025-03-05-membertest'', total_members = 4, status = OPEN,
      members = [\<lparr>name = ''member0001'', expenses = {#}, payments = {#}\<rparr>,
                 \<lparr>name = ''member0002'', expenses = {#}, payments = {#}\<rparr>,
                 \<lparr>name = ''member0003'', expenses = {#}, payments = {#}\<rparr>,
                 \<lparr>name = ''Charlie'', expenses = {#25#}, payments = {#}\<rparr>]\<rparr>"

text \<open>The invariant of the data model, for every gathering of the database.\<close>

definition db_inv :: "db \<Rightarrow> bool" where
  "db_inv d = (\<forall>gid g. d gid = Some g \<longrightarrow> total_members g = int (length (members g)))"

fun nonneg_create :: "command \<Rightarrow> bool" where
  "nonneg_create (Create gid n) = (0 \<le> n)"
| "nonneg_create c = True"

section \<open>The resolver as the specification words it\<close>

text \<open>
  The specification's placeholder: a name prefixed \<open>member\<close>; its numeric suffix is the
  decimal number after the prefix; the resolver's choice is the placeholder whose suffix
  is lowest.
\<close>

definition digits_to_nat :: "string \<Rightarrow> nat option" where
  "digits_to_nat s =
     (if s = [] then None
      else fold (\<lambda>c acc. case (acc, digit_val c) of
                            (Some a, Some v) \<Rightarrow> Some (10 * a + v)
                          | _ \<Rightarrow> None) s (Some 0))"

definition spec_numeric_suffix :: "string \<Rightarrow> nat option" where
  "spec_numeric_suffix s = (if take 6 s = ''member'' then digits_to_nat (drop 6 s) else None)"

fun spec_lowest_placeholder :: "Member list \<Rightarrow> Member option" where
  "spec_lowest_placeholder [] = None"
| "spec_lowest_placeholder (m # ms) =
     (case spec_numeric_suffix (name m) of
        None \<Rightarrow> spec_lowest_placeholder ms
      | Some k \<Rightarrow>
          (case spec_lowest_placeholder ms of
             None \<Rightarrow> Some m
           | Some m' \<Rightarrow>
               (case spec_numeric_suffix (name m') of
                  None \<Rightarrow> Some m
                | Some k' \<Rightarrow> if k \<le> k' then Some m else Some m')))"

text \<open>
  Three placeholders, the first of which has taken the name \<open>member0009\<close> with an
  expense of 5.
\<close>

definition stale_numbering :: db where
  "stale_numbering = execute_all Map.empty
     [Create ''2025-03-01-x'' 3, AddExpense ''2025-03-01-x'' ''member0009'' 5]"

definition stale_numbering_gathering :: Gathering where
  "stale_numbering_gathering =
     \<lparr>gathering_id = ''2025-03-01-x'', total_members = 3, status = OPEN,
      members = [\<lparr>name = ''member0009'', expenses = {#5#}, payments = {#}\<rparr>,
                 \<lparr>name = ''member0002'', expenses = {#}, payments = {#}\<rparr>,
                 \<lparr>name = ''member0003'', expenses = {#}, payments = {#}\<rparr>]\<rparr>"

text \<open>
  A gathering created empty, to which a member named \<open>memberson\<close> is added, who
  then pays 25.
\<close>

definition memberson :: db where
  "memberson = execute_all Map.empty
     [Create ''2025-03-01-x'' 0, AddMember ''2025-03-01-x'' ''memberson'',
      AddExpense ''2025-03-01-x'' ''memberson'' 25]"

definition memberson_gathering :: Gathering where
  "memberson_gathering =
     \<lparr>gathering_id = ''2025-03-01-x'', total_members = 1, status = OPEN,
      members = [\<lparr>name = ''memberson'', expenses = {#25#}, payments = {#}\<rparr>]\<rparr>"

section \<open>The id format as the specification words it\<close>

text \<open>
  The specification's format: four digits, a hyphen, two digits, a hyphen, two digits, a
  hyphen, then any suffix; the three numbers are a date of the calendar.
\<close>

definition spec_id_format :: "string \<Rightarrow> bool" where
  "spec_id_format s =
     (case s of
        y1 # y2 # y3 # y4 # h1 # m1 # m2 # h2 # d1 # d2 # h3 # suffix \<Rightarrow>
          h1 = CHR ''-'' \<and> h2 = CHR ''-'' \<and> h3 = CHR ''-'' \<and>
          (case (digits_to_nat [y1, y2, y3, y4], digits_to_nat [m1, m2], digits_to_nat [d1, d2]) of
             (Some y, Some m, Some d) \<Rightarrow> valid_date y m d
           | _ \<Rightarrow> False)
      | _ \<Rightarrow> False)"

text \<open>
  The format \<open>create_gathering\<close> accepts, in terms of the fields between hyphens: at
  least three fields; the first is four digits, the second one or two digits, the third
  one or two digits, or a space and a digit; the three numbers are a date of the
  calendar. Whatever follows the third field is free, and nothing need follow it. The
  digits are the ten ASCII digits, so the format is read on ids of ASCII characters,
  those whose bytes have the top bit clear.
\<close>

definition ascii_id :: "string \<Rightarrow> bool" where
  "ascii_id s = (\<forall>c\<in>set s. \<not> digit7 c)"

definition year_field :: "string \<Rightarrow> nat option" where
  "year_field s = (if length s = 4 then digits_to_nat s else None)"

definition short_field :: "string \<Rightarrow> nat option" where
  "short_field s = (if length s = 1 \<or> length s = 2 then digits_to_nat s else None)"

definition day_field :: "string \<Rightarrow> nat option" where
  "day_field s =
     (case s of
        [a, b] \<Rightarrow> if a = CHR '' '' then digit_val b else digits_to_nat s
      | _ \<Rightarrow> short_field s)"

definition accepted_id_format :: "string \<Rightarrow> bool" where
  "accepted_id_format s =
     (case split_on CHR ''-'' s of
        ys # ms # ds # rest \<Rightarrow>
          (case (year_field ys, short_field ms, day_field ds) of
             (Some y, Some m, Some d) \<Rightarrow> valid_date y m d
           | _ \<Rightarrow> False)
      | _ \<Rightarrow> False)"

section \<open>Properties of the ledger\<close>

lemma paid_once_eval: "paid_once ''2025-03-01-x'' = Some paid_once_gathering"
  by code_simp

lemma friendsbeer_eval: "friendsbeer ''2025-03-01-friendsbeer'' = Some friendsbeer_gathering"
  by code_simp

lemma expense_per_member_value:
  "expense_per_member g =
     Inr (if total_members g = 0 then 0
          else gathering_total_expenses g / real_of_int (total_members g))"
  by (simp add: expense_per_member_def truediv_def gathering_total_expenses_def)

lemma balance_value:
  "balance g m =
     Inr (total_expenses m + total_payments m -
          (if total_members g = 0 then 0
           else gathering_total_expenses g / real_of_int (total_members g)))"
  by (simp add: balance_def expense_per_member_value)

text \<open>
  C8. The expense per member is the sum of all expense amounts of the gathering divided
  by \<open>total_members\<close> when that is not zero, and 0 when it is zero; the division
  never raises \<open>ZeroDivisionError\<close>.
\<close>

theorem expense_per_member_spec:
  "(total_members g \<noteq> 0 \<longrightarrow>
      expense_per_member g = Inr (gathering_total_expenses g / real_of_int (total_members g))) \<and>
   (total_members g = 0 \<longrightarrow> expense_per_member g = Inr 0) \<and>
   expense_per_member g \<noteq> Inl ZeroDivisionError"
  by (simp add: expense_per_member_def truediv_def gathering_total_expenses_def)

theorem expense_per_member_spec_witness:
  "expense_per_member friendsbeer_gathering = Inr 40 \<and>
   expense_per_member (friendsbeer_gathering\<lparr>total_members := 0\<rparr>) = Inr 0"
  using expense_per_member_spec [of friendsbeer_gathering]
        expense_per_member_spec [of "friendsbeer_gathering\<lparr>total_members := 0\<rparr>"]
  by (simp add: friendsbeer_gathering_def gathering_total_expenses_def)

lemma fold_upd_other:
  "k \<notin> name ` set ms \<Longrightarrow> fold (\<lambda>x r. r(name x \<mapsto> f x)) ms r0 k = r0 k"
  by (induction ms arbitrary: r0) auto

lemma fold_upd_lookup:
  "distinct (map name ms) \<Longrightarrow> m \<in> set ms \<Longrightarrow>
   fold (\<lambda>x r. r(name x \<mapsto> f x)) ms r0 (name m) = Some (f m)"
proof (induction ms arbitrary: r0)
  case Nil
  then show ?case by simp
next
  case (Cons x xs)
  show ?case
  proof (cases "m = x")
    case True
    with Cons.prems show ?thesis by (simp add: fold_upd_other fun_upd_same del: fun_upd_apply)
  next
    case False
    with Cons show ?thesis by simp
  qed
qed

text \<open>
  C1. What \<open>calculate_reimbursements\<close> computes for a member against the member's
  balance: the reimbursement is the negated balance plus twice the member's payments, so
  the two agree up to sign only for a member whose payments sum to zero. The witness is a
  member with one payment of 40 and no expense: balance 40, reimbursement 40 as well.
\<close>

theorem reimbursement_vs_balance:
  assumes "d gid = Some g" and "m \<in> set (members g)" and "distinct (map name (members g))"
  shows "\<exists>r b. calculate_reimbursements d gid = Inr r \<and> balance g m = Inr b \<and>
               r (name m) = Some (2 * total_payments m - b)"
  using assms
  by (simp add: calculate_reimbursements_def get_gathering_def expense_per_member_value
      balance_value fold_upd_lookup)

theorem reimbursement_vs_balance_witness:
  "\<exists>r. calculate_reimbursements paid_once ''2025-03-01-x'' = Inr r \<and>
       balance paid_once_gathering \<lparr>name = ''member0001'', expenses = {#}, payments = {#40#}\<rparr> = Inr 40 \<and>
       r ''member0001'' = Some 40"
  using reimbursement_vs_balance [of paid_once "''2025-03-01-x''" paid_once_gathering
          "\<lparr>name = ''member0001'', expenses = {#}, payments = {#40#}\<rparr>"] paid_once_eval
  by (simp add: paid_once_gathering_def total_payments_def balance_value total_expenses_def
      gathering_total_expenses_def)














section \<open>Properties of the store\<close>

lemma closed_example_eval: "closed_example ''2025-03-01-x'' = Some closed_example_gathering"
  by code_simp

lemma find_first:
  "\<forall>x\<in>set pre. \<not> P x \<Longrightarrow> P m \<Longrightarrow> find P (pre @ m # post) = Some m"
  by (induction pre) auto

lemma find_none: "\<forall>x\<in>set xs. \<not> P x \<Longrightarrow> find P xs = None"
  by (induction xs) auto

lemma update_first_at:
  "\<forall>x\<in>set pre. \<not> P x \<Longrightarrow> P m \<Longrightarrow> update_first P f (pre @ m # post) = pre @ f m # post"
  by (induction pre) auto

lemma delete_first_at:
  "\<forall>x\<in>set pre. \<not> P x \<Longrightarrow> P m \<Longrightarrow> delete_first P (pre @ m # post) = pre @ post"
  by (induction pre) auto

lemma filter_first:
  "\<forall>x\<in>set pre. \<not> P x \<Longrightarrow> P m \<Longrightarrow> filter P (pre @ m # post) = m # filter P post"
  by (induction pre) auto

lemma filter_none: "\<forall>x\<in>set xs. \<not> P x \<Longrightarrow> filter P xs = []"
  by (induction xs) auto

text \<open>
  C6. Scenario A: the gathering \<open>2025-03-01-friendsbeer\<close> of five members, after
  expenses of 50 for Roy, 100 for David and 50 for Felix. The first three placeholders
  carry the three names; the expenses total 200, 40 per member; the reimbursements are
  -10 for Roy, -60 for David, -10 for Felix and 40 for each of the two placeholders left.
\<close>

theorem scenario_A:
  "friendsbeer ''2025-03-01-friendsbeer'' = Some friendsbeer_gathering \<and>
   map name (members friendsbeer_gathering) =
     [''Roy'', ''David'', ''Felix'', ''member0004'', ''member0005''] \<and>
   gathering_total_expenses friendsbeer_gathering = 200 \<and>
   expense_per_member friendsbeer_gathering = Inr 40 \<and>
   calculate_reimbursements friendsbeer ''2025-03-01-friendsbeer'' =
     Inr [''Roy'' \<mapsto> - 10, ''David'' \<mapsto> - 60, ''Felix'' \<mapsto> - 10,
          ''member0004'' \<mapsto> 40, ''member0005'' \<mapsto> 40]"
proof -
  have epm: "expense_per_member friendsbeer_gathering = Inr 40"
    by (simp add: expense_per_member_value friendsbeer_gathering_def gathering_total_expenses_def)
  have "calculate_reimbursements friendsbeer ''2025-03-01-friendsbeer'' =
     Inr [''Roy'' \<mapsto> - 10, ''David'' \<mapsto> - 60, ''Felix'' \<mapsto> - 10,
          ''member0004'' \<mapsto> 40, ''member0005'' \<mapsto> 40]"
    unfolding calculate_reimbursements_def get_gathering_def friendsbeer_eval
    by (simp add: epm) (simp add: friendsbeer_gathering_def total_expenses_def total_payments_def)
  then show ?thesis
    by (simp add: friendsbeer_eval epm)
       (simp add: friendsbeer_gathering_def gathering_total_expenses_def)
qed

theorem scenario_A_witness:
  "calculate_reimbursements friendsbeer ''2025-03-01-friendsbeer'' =
     Inr [''Roy'' \<mapsto> - 10, ''David'' \<mapsto> - 60, ''Felix'' \<mapsto> - 10,
          ''member0004'' \<mapsto> 40, ''member0005'' \<mapsto> 40]"
  using scenario_A by (elim conjE)

text \<open>
  C7, as amended. On a closed gathering \<open>record_payment\<close>, \<open>rename_member\<close>,
  \<open>add_member\<close> and \<open>remove_member\<close> fail with \<open>GatheringClosed\<close>, and so does
  \<open>add_expense\<close> with a positive amount; \<open>add_expense\<close> with an amount that is not
  positive fails with \<open>InvalidAmount\<close>, its amount check coming first. Every one of
  them leaves the database as it was.
\<close>

theorem closed_gathering_rejects:
  assumes "d gid = Some g" and "status g = CLOSED"
  shows "(0 < amount \<longrightarrow> add_expense d gid nm amount = (Inl GatheringClosed, d)) \<and>
         (amount \<le> 0 \<longrightarrow> add_expense d gid nm amount = (Inl InvalidAmount, d)) \<and>
         record_payment d gid nm amount = (Inl GatheringClosed, d) \<and>
         rename_member d gid nm new_name = (Inl GatheringClosed, d) \<and>
         add_member d gid nm = (Inl GatheringClosed, d) \<and>
         remove_member d gid nm = (Inl GatheringClosed, d)"
  using assms
  by (simp add: add_expense_def record_payment_def rename_member_def add_member_def
      remove_member_def)

theorem closed_gathering_rejects_witness:
  "add_expense closed_example ''2025-03-01-x'' ''Roy'' 50 = (Inl GatheringClosed, closed_example) \<and>
   record_payment closed_example ''2025-03-01-x'' ''member0001'' 40 = (Inl GatheringClosed, closed_example) \<and>
   rename_member closed_example ''2025-03-01-x'' ''member0001'' ''Roy'' = (Inl GatheringClosed, closed_example) \<and>
   add_member closed_example ''2025-03-01-x'' ''Roy'' = (Inl GatheringClosed, closed_example) \<and>
   remove_member closed_example ''2025-03-01-x'' ''member0001'' = (Inl GatheringClosed, closed_example)"
proof -
  have st: "status closed_example_gathering = CLOSED"
    by (simp add: closed_example_gathering_def)
  show ?thesis
    using closed_gathering_rejects [of closed_example "''2025-03-01-x''" closed_example_gathering
            50 "''Roy''" "''Roy''", OF closed_example_eval st]
          closed_gathering_rejects [of closed_example "''2025-03-01-x''" closed_example_gathering
            40 "''member0001''" "''Roy''", OF closed_example_eval st]
    by simp
qed

text \<open>
  C7 as stated fails for \<open>add_expense\<close> with amount 0 on a closed gathering: the error
  is \<open>InvalidAmount\<close>, not \<open>GatheringClosed\<close>.
\<close>

theorem closed_gathering_counterexample:
  "closed_example ''2025-03-01-x'' = Some closed_example_gathering \<and>
   status closed_example_gathering = CLOSED \<and>
   add_expense closed_example ''2025-03-01-x'' ''member0001'' 0 = (Inl InvalidAmount, closed_example)"
  by (simp add: closed_example_eval closed_example_gathering_def add_expense_def)

text \<open>
  C9. On an open gathering \<open>remove_member\<close> fails with \<open>MemberNotFound\<close> when no
  member has the name; when the first member of that name has an expense or a payment it
  fails with \<open>MemberHasActivity\<close>; otherwise it removes that member, leaves the members
  before and after it as they are, and lowers \<open>total_members\<close> by one. Failures leave
  the database as it was.
\<close>

theorem remove_member_spec:
  assumes "d gid = Some g" and "status g = OPEN"
  shows "((\<forall>x\<in>set (members g). name x \<noteq> nm) \<longrightarrow>
            remove_member d gid nm = (Inl MemberNotFound, d)) \<and>
         (\<forall>pre m post.
            members g = pre @ m # post \<and> (\<forall>x\<in>set pre. name x \<noteq> nm) \<and> name m = nm \<longrightarrow>
            remove_member d gid nm =
              (if expenses m \<noteq> {#} \<or> payments m \<noteq> {#} then (Inl MemberHasActivity, d)
               else (Inr (), d(gid \<mapsto> g\<lparr>members := pre @ post,
                                           total_members := total_members g - 1\<rparr>))))"
proof (intro conjI impI allI)
  assume "\<forall>x\<in>set (members g). name x \<noteq> nm"
  then have "find (\<lambda>m. name m = nm) (members g) = None"
    by (simp add: find_none)
  with assms show "remove_member d gid nm = (Inl MemberNotFound, d)"
    by (simp add: remove_member_def)
next
  fix pre m post
  assume h: "members g = pre @ m # post \<and> (\<forall>x\<in>set pre. name x \<noteq> nm) \<and> name m = nm"
  then have f: "find (\<lambda>m. name m = nm) (members g) = Some m"
    by (simp add: find_first)
  from h have del: "delete_first (\<lambda>m. name m = nm) (members g) = pre @ post"
    by (simp add: delete_first_at)
  from assms f del
  show "remove_member d gid nm =
          (if expenses m \<noteq> {#} \<or> payments m \<noteq> {#} then (Inl MemberHasActivity, d)
           else (Inr (), d(gid \<mapsto> g\<lparr>members := pre @ post,
                                       total_members := total_members g - 1\<rparr>)))"
    by (simp add: remove_member_def)
qed

lemma membertest_eval: "membertest ''2025-03-05-membertest'' = Some membertest_gathering"
  by code_simp

theorem remove_member_spec_witness:
  "remove_member membertest ''2025-03-05-membertest'' ''NonExistentMember'' =
     (Inl MemberNotFound, membertest) \<and>
   remove_member membertest ''2025-03-05-membertest'' ''Charlie'' =
     (Inl MemberHasActivity, membertest) \<and>
   remove_member membertest ''2025-03-05-membertest'' ''member0002'' =
     (Inr (), membertest(''2025-03-05-membertest'' \<mapsto>
        \<lparr>gathering_id = ''2025-03-05-membertest'', total_members = 3, status = OPEN,
         members = [\<lparr>name = ''member0001'', expenses = {#}, payments = {#}\<rparr>,
                    \<lparr>name = ''member0003'', expenses = {#}, payments = {#}\<rparr>,
                    \<lparr>name = ''Charlie'', expenses = {#25#}, payments = {#}\<rparr>]\<rparr>))"
proof -
  have st: "status membertest_gathering = OPEN"
    by (simp add: membertest_gathering_def)
  note spec = remove_member_spec [of membertest "''2025-03-05-membertest''" membertest_gathering,
      OF membertest_eval st]
  have a: "remove_member membertest ''2025-03-05-membertest'' ''NonExistentMember'' =
     (Inl MemberNotFound, membertest)"
    using spec [of "''NonExistentMember''"] by (simp add: membertest_gathering_def)
  have b: "remove_member membertest ''2025-03-05-membertest'' ''Charlie'' =
     (Inl MemberHasActivity, membertest)"
    using spec [of "''Charlie''", THEN conjunct2, rule_format,
        of "[\<lparr>name = ''member0001'', expenses = {#}, payments = {#}\<rparr>,
             \<lparr>name = ''member0002'', expenses = {#}, payments = {#}\<rparr>,
             \<lparr>name = ''member0003'', expenses = {#}, payments = {#}\<rparr>]"
           "\<lparr>name = ''Charlie'', expenses = {#25#}, payments = {#}\<rparr>" "[]"]
    by (simp add: membertest_gathering_def)
  have c: "remove_member membertest ''2025-03-05-membertest'' ''member0002'' =
     (Inr (), membertest(''2025-03-05-membertest'' \<mapsto>
        membertest_gathering\<lparr>members := [\<lparr>name = ''member0001'', expenses = {#}, payments = {#}\<rparr>] @
             [\<lparr>name = ''member0003'', expenses = {#}, payments = {#}\<rparr>,
              \<lparr>name = ''Charlie'', expenses = {#25#}, payments = {#}\<rparr>],
           total_members := total_members membertest_gathering - 1\<rparr>))"
    using spec [of "''member0002''", THEN conjunct2, rule_format,
        of "[\<lparr>name = ''member0001'', expenses = {#}, payments = {#}\<rparr>]"
           "\<lparr>name = ''member0002'', expenses = {#}, payments = {#}\<rparr>"
           "[\<lparr>name = ''member0003'', expenses = {#}, payments = {#}\<rparr>,
             \<lparr>name = ''Charlie'', expenses = {#25#}, payments = {#}\<rparr>]"]
    by (simp add: membertest_gathering_def)
  from a b c show ?thesis
    by (simp add: membertest_gathering_def)
qed

lemma length_update_first: "length (update_first P f xs) = length xs"
  by (induction xs) auto

lemma length_delete_first:
  "find P xs = Some m \<Longrightarrow> int (length (delete_first P xs)) = int (length xs) - 1"
  by (induction xs) (auto split: if_splits)

lemma db_inv_update:
  "db_inv d \<Longrightarrow> total_members g = int (length (members g)) \<Longrightarrow> db_inv (d(gid \<mapsto> g))"
  by (simp add: db_inv_def)

lemma db_inv_lookup: "db_inv d \<Longrightarrow> d gid = Some g \<Longrightarrow> total_members g = int (length (members g))"
  by (simp add: db_inv_def)

lemma db_inv_create: "db_inv d \<Longrightarrow> 0 \<le> n \<Longrightarrow> db_inv (snd (create_gathering d gid n))"
  by (auto simp: create_gathering_def Let_def db_inv_update split: option.splits)

lemma db_inv_add_member: "db_inv d \<Longrightarrow> db_inv (snd (add_member d gid nm))"
  by (auto simp: add_member_def Let_def split: option.splits intro!: db_inv_update
      dest: db_inv_lookup)

lemma db_inv_remove_member: "db_inv d \<Longrightarrow> db_inv (snd (remove_member d gid nm))"
  by (auto simp: remove_member_def length_delete_first split: option.splits
      intro!: db_inv_update dest: db_inv_lookup)

lemma db_inv_add_expense: "db_inv d \<Longrightarrow> db_inv (snd (add_expense d gid nm a))"
  by (auto simp: add_expense_def Let_def length_update_first split: option.splits list.splits
      intro!: db_inv_update dest: db_inv_lookup)

lemma db_inv_record_payment: "db_inv d \<Longrightarrow> db_inv (snd (record_payment d gid nm a))"
  by (auto simp: record_payment_def Let_def length_update_first split: option.splits
      intro!: db_inv_update dest: db_inv_lookup)

lemma db_inv_rename_member: "db_inv d \<Longrightarrow> db_inv (snd (rename_member d gid old new))"
  by (auto simp: rename_member_def Let_def length_update_first split: option.splits sum.splits
      intro!: db_inv_update dest: db_inv_lookup)

lemma db_inv_close: "db_inv d \<Longrightarrow> db_inv (snd (close_gathering d gid))"
  by (auto simp: close_gathering_def Let_def split: option.splits
      intro!: db_inv_update dest: db_inv_lookup)

lemma db_inv_delete: "db_inv d \<Longrightarrow> db_inv (snd (delete_gathering d gid force))"
  by (auto simp: delete_gathering_def db_inv_def split: option.splits)

lemma db_inv_execute: "db_inv d \<Longrightarrow> nonneg_create c \<Longrightarrow> db_inv (execute d c)"
  by (cases c)
     (simp_all add: db_inv_create db_inv_add_member db_inv_remove_member db_inv_add_expense
        db_inv_record_payment db_inv_rename_member db_inv_close db_inv_delete)

text \<open>
  C3, as amended. \<open>total_members\<close> equals the number of members of every gathering
  after any sequence of operations, started from a database where it holds (the empty
  one, for instance), in which every \<open>create_gathering\<close> is given a member count that
  is not negative: \<open>create_gathering\<close> establishes the equality, \<open>add_member\<close> and
  \<open>remove_member\<close> move both sides by one, the other operations change neither.
\<close>

theorem total_members_invariant:
  assumes "db_inv d" and "\<forall>c\<in>set cs. nonneg_create c"
  shows "db_inv (execute_all d cs)"
  using assms
proof (induction cs arbitrary: d)
  case Nil
  then show ?case by simp
next
  case (Cons c cs)
  then show ?case by (simp add: db_inv_execute)
qed

theorem total_members_invariant_witness:
  "total_members membertest_gathering = int (length (members membertest_gathering))"
proof -
  have "db_inv (execute_all Map.empty
     [Create ''2025-03-05-membertest'' 3,
      AddMember ''2025-03-05-membertest'' ''Charlie'',
      AddExpense ''2025-03-05-membertest'' ''Charlie'' 25])"
    by (rule total_members_invariant) (simp_all add: db_inv_def)
  then have "db_inv membertest"
    by (simp only: membertest_def)
  then show ?thesis
    using membertest_eval unfolding db_inv_def by blast
qed

text \<open>
  C3 as stated fails for a negative member count: \<open>create_gathering\<close> with -1 succeeds
  and stores \<open>total_members = -1\<close> with no member.
\<close>

theorem total_members_counterexample:
  "create_gathering Map.empty ''2025-03-01-x'' (- 1) =
     (Inr (Some \<lparr>gathering_id = ''2025-03-01-x'', total_members = - 1, status = OPEN, members = []\<rparr>),
      [''2025-03-01-x'' \<mapsto>
         \<lparr>gathering_id = ''2025-03-01-x'', total_members = - 1, status = OPEN, members = []\<rparr>]) \<and>
   (- 1 :: int) \<noteq> int (length ([] :: Member list))"
proof -
  have "strptime_Ymd (date_part ''2025-03-01-x'') = Some (2025, 3, 1)"
    by code_simp
  then show ?thesis
    by (simp add: create_gathering_def get_gathering_def Let_def fits_integer_column_def)
qed

section \<open>Properties of the member resolution\<close>

lemma stale_numbering_eval: "stale_numbering ''2025-03-01-x'' = Some stale_numbering_gathering"
  by code_simp

lemma memberson_eval: "memberson ''2025-03-01-x'' = Some memberson_gathering"
  by code_simp

lemma like_member_prefix: "like_member (''member'' @ suffix)"
  by (simp add: like_member_def)

lemma add_expense_exact:
  assumes "d gid = Some g" and "status g = OPEN" and "0 < amount"
    and "members g = pre @ m # post" and "\<forall>x\<in>set pre. name x \<noteq> nm" and "name m = nm"
  shows "add_expense d gid nm amount =
           (Inr (g\<lparr>members := pre @ m\<lparr>expenses := add_mset amount (expenses m)\<rparr> # post\<rparr>,
                 m\<lparr>expenses := add_mset amount (expenses m)\<rparr>),
            d(gid \<mapsto> g\<lparr>members := pre @ m\<lparr>expenses := add_mset amount (expenses m)\<rparr> # post\<rparr>))"
proof -
  let ?P = "\<lambda>x. name x = nm"
  from assms have f: "find ?P (members g) = Some m"
    by (simp add: find_first)
  from assms have u: "update_first ?P (\<lambda>m. m\<lparr>expenses := add_mset amount (expenses m)\<rparr>) (members g) =
      pre @ m\<lparr>expenses := add_mset amount (expenses m)\<rparr> # post"
    by (simp add: update_first_at)
  from assms have f': "find ?P (pre @ m\<lparr>expenses := add_mset amount (expenses m)\<rparr> # post) =
      Some (m\<lparr>expenses := add_mset amount (expenses m)\<rparr>)"
    by (simp add: find_first)
  from assms(1-3) show ?thesis
    by (simp add: add_expense_def f u Let_def refreshed_def get_gathering_def f')
qed

lemma add_expense_renames:
  assumes "d gid = Some g" and "status g = OPEN" and "0 < amount"
    and "\<forall>x\<in>set (members g). name x \<noteq> nm"
    and "members g = pre @ m # post" and "\<forall>x\<in>set pre. \<not> like_member (name x)"
    and "like_member (name m)"
  shows "add_expense d gid nm amount =
           (Inr (g\<lparr>members := pre @ m\<lparr>name := nm, expenses := add_mset amount (expenses m)\<rparr> # post\<rparr>,
                 m\<lparr>name := nm, expenses := add_mset amount (expenses m)\<rparr>),
            d(gid \<mapsto> g\<lparr>members := pre @ m\<lparr>name := nm, expenses := add_mset amount (expenses m)\<rparr> # post\<rparr>))"
proof -
  let ?P = "\<lambda>x. name x = nm" and ?L = "\<lambda>x. like_member (name x)"
  let ?m' = "m\<lparr>name := nm, expenses := add_mset amount (expenses m)\<rparr>"
  from assms have f: "find ?P (members g) = None"
    by (simp add: find_none)
  from assms have fl: "filter ?L (members g) = m # filter ?L post"
    by (simp add: filter_first)
  from assms have u: "update_first ?L (\<lambda>m. m\<lparr>name := nm, expenses := add_mset amount (expenses m)\<rparr>)
      (members g) = pre @ ?m' # post"
    by (simp add: update_first_at)
  from assms have "\<forall>x\<in>set pre. name x \<noteq> nm"
    by simp
  then have f': "find ?P (pre @ ?m' # post) = Some ?m'"
    by (simp add: find_first)
  from assms(1-3) show ?thesis
    by (simp add: add_expense_def f fl u Let_def refreshed_def get_gathering_def f')
qed

lemma add_expense_not_found:
  assumes "d gid = Some g" and "status g = OPEN" and "0 < amount"
    and "\<forall>x\<in>set (members g). name x \<noteq> nm \<and> \<not> like_member (name x)"
  shows "add_expense d gid nm amount = (Inl MemberNotFound, d)"
proof -
  from assms have f: "find (\<lambda>x. name x = nm) (members g) = None"
    by (simp add: find_none)
  from assms have fl: "filter (\<lambda>x. like_member (name x)) (members g) = []"
    by (simp add: filter_none)
  from assms(1-3) show ?thesis
    by (simp add: add_expense_def f fl)
qed

text \<open>
  C4, as amended. On an open gathering, with a positive amount: the first member of
  exactly the given name receives the expense; when no member has the name, the first
  member in row order whose name matches \<open>member%\<close> takes the name, keeps its place
  and receives the expense; when no member has the name and none matches, the call
  fails with \<open>MemberNotFound\<close> and changes nothing. The call returns the updated
  gathering and the member that received the expense, whose expenses are the earlier
  ones and the new amount, in no particular order.
\<close>

theorem add_expense_resolution:
  assumes "d gid = Some g" and "status g = OPEN" and "0 < amount"
  shows "(\<forall>pre m post.
            members g = pre @ m # post \<and> (\<forall>x\<in>set pre. name x \<noteq> nm) \<and> name m = nm \<longrightarrow>
            add_expense d gid nm amount =
              (Inr (g\<lparr>members := pre @ m\<lparr>expenses := add_mset amount (expenses m)\<rparr> # post\<rparr>,
                    m\<lparr>expenses := add_mset amount (expenses m)\<rparr>),
               d(gid \<mapsto> g\<lparr>members := pre @ m\<lparr>expenses := add_mset amount (expenses m)\<rparr> # post\<rparr>))) \<and>
         (\<forall>pre m post.
            (\<forall>x\<in>set (members g). name x \<noteq> nm) \<and>
            members g = pre @ m # post \<and> (\<forall>x\<in>set pre. \<not> like_member (name x)) \<and>
            like_member (name m) \<longrightarrow>
            add_expense d gid nm amount =
              (Inr (g\<lparr>members := pre @ m\<lparr>name := nm, expenses := add_mset amount (expenses m)\<rparr> # post\<rparr>,
                    m\<lparr>name := nm, expenses := add_mset amount (expenses m)\<rparr>),
               d(gid \<mapsto> g\<lparr>members :=
                     pre @ m\<lparr>name := nm, expenses := add_mset amount (expenses m)\<rparr> # post\<rparr>))) \<and>
         ((\<forall>x\<in>set (members g). name x \<noteq> nm \<and> \<not> like_member (name x)) \<longrightarrow>
            add_expense d gid nm amount = (Inl MemberNotFound, d))"
  using assms
  by (intro conjI allI impI)
     (elim conjE, rule add_expense_exact, assumption+,
      elim conjE, rule add_expense_renames, assumption+,
      rule add_expense_not_found, assumption+)

theorem add_expense_resolution_witness:
  "add_expense membertest ''2025-03-05-membertest'' ''Charlie'' 10 =
     (Inr (membertest_gathering\<lparr>members :=
             [\<lparr>name = ''member0001'', expenses = {#}, payments = {#}\<rparr>,
              \<lparr>name = ''member0002'', expenses = {#}, payments = {#}\<rparr>,
              \<lparr>name = ''member0003'', expenses = {#}, payments = {#}\<rparr>,
              \<lparr>name = ''Charlie'', expenses = {#25, 10#}, payments = {#}\<rparr>]\<rparr>,
           \<lparr>name = ''Charlie'', expenses = {#25, 10#}, payments = {#}\<rparr>),
      membertest(''2025-03-05-membertest'' \<mapsto> membertest_gathering\<lparr>members :=
             [\<lparr>name = ''member0001'', expenses = {#}, payments = {#}\<rparr>,
              \<lparr>name = ''member0002'', expenses = {#}, payments = {#}\<rparr>,
              \<lparr>name = ''member0003'', expenses = {#}, payments = {#}\<rparr>,
              \<lparr>name = ''Charlie'', expenses = {#25, 10#}, payments = {#}\<rparr>]\<rparr>)) \<and>
   add_expense membertest ''2025-03-05-membertest'' ''Roy'' 50 =
     (Inr (membertest_gathering\<lparr>members :=
             [\<lparr>name = ''Roy'', expenses = {#50#}, payments = {#}\<rparr>,
              \<lparr>name = ''member0002'', expenses = {#}, payments = {#}\<rparr>,
              \<lparr>name = ''member0003'', expenses = {#}, payments = {#}\<rparr>,
              \<lparr>name = ''Charlie'', expenses = {#25#}, payments = {#}\<rparr>]\<rparr>,
           \<lparr>name = ''Roy'', expenses = {#50#}, payments = {#}\<rparr>),
      membertest(''2025-03-05-membertest'' \<mapsto> membertest_gathering\<lparr>members :=
             [\<lparr>name = ''Roy'', expenses = {#50#}, payments = {#}\<rparr>,
              \<lparr>name = ''member0002'', expenses = {#}, payments = {#}\<rparr>,
              \<lparr>name = ''member0003'', expenses = {#}, payments = {#}\<rparr>,
              \<lparr>name = ''Charlie'', expenses = {#25#}, payments = {#}\<rparr>]\<rparr>)) \<and>
   add_expense [''2025-03-01-x'' \<mapsto>
        \<lparr>gathering_id = ''2025-03-01-x'', total_members = 0, status = OPEN, members = []\<rparr>]
      ''2025-03-01-x'' ''Roy'' 50 =
     (Inl MemberNotFound, [''2025-03-01-x'' \<mapsto>
        \<lparr>gathering_id = ''2025-03-01-x'', total_members = 0, status = OPEN, members = []\<rparr>])"
proof -
  have st: "status membertest_gathering = OPEN"
    by (simp add: membertest_gathering_def)
  note spec = add_expense_resolution [of membertest "''2025-03-05-membertest''"
      membertest_gathering, OF membertest_eval st]
  have a: "add_expense membertest ''2025-03-05-membertest'' ''Charlie'' 10 =
     (Inr (membertest_gathering\<lparr>members :=
             [\<lparr>name = ''member0001'', expenses = {#}, payments = {#}\<rparr>,
              \<lparr>name = ''member0002'', expenses = {#}, payments = {#}\<rparr>,
              \<lparr>name = ''member0003'', expenses = {#}, payments = {#}\<rparr>,
              \<lparr>name = ''Charlie'', expenses = {#25, 10#}, payments = {#}\<rparr>]\<rparr>,
           \<lparr>name = ''Charlie'', expenses = {#25, 10#}, payments = {#}\<rparr>),
      membertest(''2025-03-05-membertest'' \<mapsto> membertest_gathering\<lparr>members :=
             [\<lparr>name = ''member0001'', expenses = {#}, payments = {#}\<rparr>,
              \<lparr>name = ''member0002'', expenses = {#}, payments = {#}\<rparr>,
              \<lparr>name = ''member0003'', expenses = {#}, payments = {#}\<rparr>,
              \<lparr>name = ''Charlie'', expenses = {#25, 10#}, payments = {#}\<rparr>]\<rparr>))"
    using spec [of 10 "''Charlie''", THEN conjunct1, rule_format,
        of "[\<lparr>name = ''member0001'', expenses = {#}, payments = {#}\<rparr>,
             \<lparr>name = ''member0002'', expenses = {#}, payments = {#}\<rparr>,
             \<lparr>name = ''member0003'', expenses = {#}, payments = {#}\<rparr>]"
           "\<lparr>name = ''Charlie'', expenses = {#25#}, payments = {#}\<rparr>" "[]"]
    by (simp add: membertest_gathering_def add_mset_commute)
  have b: "add_expense membertest ''2025-03-05-membertest'' ''Roy'' 50 =
     (Inr (membertest_gathering\<lparr>members :=
             [\<lparr>name = ''Roy'', expenses = {#50#}, payments = {#}\<rparr>,
              \<lparr>name = ''member0002'', expenses = {#}, payments = {#}\<rparr>,
              \<lparr>name = ''member0003'', expenses = {#}, payments = {#}\<rparr>,
              \<lparr>name = ''Charlie'', expenses = {#25#}, payments = {#}\<rparr>]\<rparr>,
           \<lparr>name = ''Roy'', expenses = {#50#}, payments = {#}\<rparr>),
      membertest(''2025-03-05-membertest'' \<mapsto> membertest_gathering\<lparr>members :=
             [\<lparr>name = ''Roy'', expenses = {#50#}, payments = {#}\<rparr>,
              \<lparr>name = ''member0002'', expenses = {#}, payments = {#}\<rparr>,
              \<lparr>name = ''member0003'', expenses = {#}, payments = {#}\<rparr>,
              \<lparr>name = ''Charlie'', expenses = {#25#}, payments = {#}\<rparr>]\<rparr>))"
    using spec [of 50 "''Roy''", THEN conjunct2, THEN conjunct1, rule_format,
        of "[]" "\<lparr>name = ''member0001'', expenses = {#}, payments = {#}\<rparr>"
           "[\<lparr>name = ''member0002'', expenses = {#}, payments = {#}\<rparr>,
             \<lparr>name = ''member0003'', expenses = {#}, payments = {#}\<rparr>,
             \<lparr>name = ''Charlie'', expenses = {#25#}, payments = {#}\<rparr>]"]
    by (simp add: membertest_gathering_def like_member_def)
  have c: "add_expense [''2025-03-01-x'' \<mapsto>
        \<lparr>gathering_id = ''2025-03-01-x'', total_members = 0, status = OPEN, members = []\<rparr>]
      ''2025-03-01-x'' ''Roy'' 50 =
     (Inl MemberNotFound, [''2025-03-01-x'' \<mapsto>
        \<lparr>gathering_id = ''2025-03-01-x'', total_members = 0, status = OPEN, members = []\<rparr>])"
    using add_expense_resolution [of "[''2025-03-01-x'' \<mapsto>
        \<lparr>gathering_id = ''2025-03-01-x'', total_members = 0, status = OPEN, members = []\<rparr>]"
        "''2025-03-01-x''"
        "\<lparr>gathering_id = ''2025-03-01-x'', total_members = 0, status = OPEN, members = []\<rparr>"
        50 "''Roy''"]
    by simp
  from a b c show ?thesis
    by (intro conjI)
qed

text \<open>
  C4 as stated fails where row order and numbering differ. With the rows
  \<open>member0009\<close>, \<open>member0002\<close>, \<open>member0003\<close> the placeholder of lowest numeric
  suffix is \<open>member0002\<close>; an expense for the unknown name Roy renames the first row,
  \<open>member0009\<close>, and \<open>member0002\<close> stays.
\<close>

theorem add_expense_resolution_counterexample:
  "stale_numbering ''2025-03-01-x'' = Some stale_numbering_gathering \<and>
   spec_lowest_placeholder (members stale_numbering_gathering) =
     Some \<lparr>name = ''member0002'', expenses = {#}, payments = {#}\<rparr> \<and>
   snd (add_expense stale_numbering ''2025-03-01-x'' ''Roy'' 50) ''2025-03-01-x'' =
     Some \<lparr>gathering_id = ''2025-03-01-x'', total_members = 3, status = OPEN,
           members = [\<lparr>name = ''Roy'', expenses = {#5, 50#}, payments = {#}\<rparr>,
                      \<lparr>name = ''member0002'', expenses = {#}, payments = {#}\<rparr>,
                      \<lparr>name = ''member0003'', expenses = {#}, payments = {#}\<rparr>]\<rparr>"
proof -
  have a: "spec_lowest_placeholder (members stale_numbering_gathering) =
     Some \<lparr>name = ''member0002'', expenses = {#}, payments = {#}\<rparr>"
    by code_simp
  have b: "snd (add_expense stale_numbering ''2025-03-01-x'' ''Roy'' 50) ''2025-03-01-x'' =
     Some \<lparr>gathering_id = ''2025-03-01-x'', total_members = 3, status = OPEN,
           members = [\<lparr>name = ''Roy'', expenses = {#5, 50#}, payments = {#}\<rparr>,
                      \<lparr>name = ''member0002'', expenses = {#}, payments = {#}\<rparr>,
                      \<lparr>name = ''member0003'', expenses = {#}, payments = {#}\<rparr>]\<rparr>"
    by code_simp
  from a b show ?thesis
    by (simp add: stale_numbering_eval)
qed

text \<open>
  C10. A member whose name is \<open>member\<close> followed by anything at all counts as
  unnamed: when it is the only member matching \<open>member%\<close> and no member has the
  requested name, \<open>add_expense\<close> renames it in place and adds the expense to the
  expenses it already has, and does not fail with \<open>MemberNotFound\<close>.
\<close>

theorem prefix_named_member_renamed:
  assumes "d gid = Some g" and "status g = OPEN" and "0 < amount"
    and "\<forall>x\<in>set (members g). name x \<noteq> nm"
    and "members g = pre @ m # post" and "name m = ''member'' @ suffix"
    and "\<forall>x\<in>set pre \<union> set post. \<not> like_member (name x)"
  shows "add_expense d gid nm amount =
           (Inr (g\<lparr>members := pre @ m\<lparr>name := nm, expenses := add_mset amount (expenses m)\<rparr> # post\<rparr>,
                 m\<lparr>name := nm, expenses := add_mset amount (expenses m)\<rparr>),
            d(gid \<mapsto> g\<lparr>members := pre @ m\<lparr>name := nm, expenses := add_mset amount (expenses m)\<rparr> # post\<rparr>)) \<and>
         fst (add_expense d gid nm amount) \<noteq> Inl MemberNotFound"
proof -
  have "like_member (''member'' @ suffix)"
    by (rule like_member_prefix)
  with assms(6) have l: "like_member (name m)"
    by (simp only:)
  from assms have p: "\<forall>x\<in>set pre. \<not> like_member (name x)"
    by simp
  from add_expense_renames [of d gid g amount nm pre m post] assms(1-5) p l show ?thesis
    by simp
qed

theorem prefix_named_member_renamed_witness:
  "add_expense memberson ''2025-03-01-x'' ''Roy'' 10 =
     (Inr (memberson_gathering\<lparr>members := [\<lparr>name = ''Roy'', expenses = {#10, 25#}, payments = {#}\<rparr>]\<rparr>,
           \<lparr>name = ''Roy'', expenses = {#10, 25#}, payments = {#}\<rparr>),
      memberson(''2025-03-01-x'' \<mapsto>
        memberson_gathering\<lparr>members := [\<lparr>name = ''Roy'', expenses = {#10, 25#}, payments = {#}\<rparr>]\<rparr>))"
proof -
  have st: "status memberson_gathering = OPEN"
    by (simp add: memberson_gathering_def)
  show ?thesis
    using prefix_named_member_renamed [of memberson "''2025-03-01-x''" memberson_gathering
        10 "''Roy''" "[]" "\<lparr>name = ''memberson'', expenses = {#25#}, payments = {#}\<rparr>" "[]"
        "''son''", OF memberson_eval st]
    by (simp add: memberson_gathering_def)
qed

section \<open>Properties of the id check\<close>

lemma index_of_bound: "index_of c xs = Some i \<Longrightarrow> i < length xs \<and> xs ! i = c"
  by (induction xs arbitrary: i) (auto split: if_splits)

lemma digit_val_range: "digit_val c = Some v \<Longrightarrow> v \<le> 9 \<and> c \<noteq> CHR ''-''"
proof -
  assume h: "digit_val c = Some v"
  then have b: "v < 10 \<and> decimal_digits ! v = c"
    using index_of_bound [of c decimal_digits v] by (simp add: digit_val_def decimal_digits_def)
  then have "v \<in> {0, 1, 2, 3, 4, 5, 6, 7, 8, 9}"
    by auto
  with b show ?thesis
    by (auto simp: decimal_digits_def)
qed

lemma digits_to_nat_two:
  "digits_to_nat [a, b] = Some v \<Longrightarrow>
   \<exists>x y. digit_val a = Some x \<and> digit_val b = Some y \<and> v = 10 * x + y"
  by (auto simp: digits_to_nat_def split: option.splits)

lemma digits_to_nat_four:
  "digits_to_nat [a, b, c, e] = Some v \<Longrightarrow>
   \<exists>w x y z. digit_val a = Some w \<and> digit_val b = Some x \<and> digit_val c = Some y \<and>
     digit_val e = Some z \<and> v = 1000 * w + 100 * x + 10 * y + z"
  by (auto simp: digits_to_nat_def split: option.splits)

lemma split_on_not_Nil: "split_on c s \<noteq> []"
  by (induction s) (auto split: list.splits)

lemma split_on_other:
  "x \<noteq> c \<Longrightarrow> split_on c (x # xs) = (x # hd (split_on c xs)) # tl (split_on c xs)"
  using split_on_not_Nil [of c xs] by (auto split: list.splits)

lemma split_on_sep: "split_on c (c # xs) = [] # split_on c xs"
  by simp

lemma date_part_exact:
  assumes "y1 \<noteq> CHR ''-''" "y2 \<noteq> CHR ''-''" "y3 \<noteq> CHR ''-''" "y4 \<noteq> CHR ''-''"
    "m1 \<noteq> CHR ''-''" "m2 \<noteq> CHR ''-''" "d1 \<noteq> CHR ''-''" "d2 \<noteq> CHR ''-''"
  shows "date_part (y1 # y2 # y3 # y4 # CHR ''-'' # m1 # m2 # CHR ''-'' # d1 # d2 # CHR ''-'' # suffix) =
         [y1, y2, y3, y4, CHR ''-'', m1, m2, CHR ''-'', d1, d2]"
  using assms split_on_not_Nil [of "CHR ''-''" suffix]
  by (simp add: date_part_def split_on_other split_on_sep del: split_on.simps)

lemma month_group_two:
  "digit_val a = Some x \<Longrightarrow> digit_val b = Some y \<Longrightarrow> 1 \<le> 10 * x + y \<Longrightarrow> 10 * x + y \<le> 12 \<Longrightarrow>
   month_group [a, b] = Some (10 * x + y)"
  by (auto simp: month_group_def)

lemma day_group_two:
  "digit_val a = Some x \<Longrightarrow> digit_val b = Some y \<Longrightarrow> 1 \<le> 10 * x + y \<Longrightarrow> 10 * x + y \<le> 31 \<Longrightarrow>
   day_group [a, b] = Some (10 * x + y)"
  by (auto simp: day_group_def)

lemma days_in_month_le: "days_in_month y m \<le> 31"
  by (simp add: days_in_month_def)

lemma spec_format_accepted:
  assumes "spec_id_format gid"
  shows "strptime_Ymd (date_part gid) \<noteq> None"
proof -
  from assms obtain y1 y2 y3 y4 m1 m2 d1 d2 suffix y m d where
    gid: "gid = y1 # y2 # y3 # y4 # CHR ''-'' # m1 # m2 # CHR ''-'' # d1 # d2 # CHR ''-'' # suffix"
    and ys: "digits_to_nat [y1, y2, y3, y4] = Some y"
    and ms: "digits_to_nat [m1, m2] = Some m"
    and ds: "digits_to_nat [d1, d2] = Some d"
    and v: "valid_date y m d"
    by (auto simp: spec_id_format_def split: list.splits option.splits)
  from ys obtain a b c e where
    dy: "digit_val y1 = Some a" "digit_val y2 = Some b" "digit_val y3 = Some c" "digit_val y4 = Some e"
    and y: "y = 1000 * a + 100 * b + 10 * c + e"
    using digits_to_nat_four by blast
  from ms obtain f g where dm: "digit_val m1 = Some f" "digit_val m2 = Some g" and m: "m = 10 * f + g"
    using digits_to_nat_two by blast
  from ds obtain h i where dd: "digit_val d1 = Some h" "digit_val d2 = Some i" and d: "d = 10 * h + i"
    using digits_to_nat_two by blast
  have nh: "y1 \<noteq> CHR ''-''" "y2 \<noteq> CHR ''-''" "y3 \<noteq> CHR ''-''" "y4 \<noteq> CHR ''-''"
    "m1 \<noteq> CHR ''-''" "m2 \<noteq> CHR ''-''" "d1 \<noteq> CHR ''-''" "d2 \<noteq> CHR ''-''"
    using dy dm dd digit_val_range by blast+
  have dp: "date_part gid = [y1, y2, y3, y4, CHR ''-'', m1, m2, CHR ''-'', d1, d2]"
    unfolding gid by (rule date_part_exact [OF nh])
  from v m have mg: "month_group [m1, m2] = Some m"
    using month_group_two [OF dm] by (simp add: valid_date_def)
  from v d have dg: "day_group [d1, d2] = Some d"
    using day_group_two [OF dd] days_in_month_le [of y m] by (simp add: valid_date_def)
  have "strptime_Ymd (date_part gid) = Some (y, m, d)"
    unfolding dp using nh dy mg dg v y
    by (simp add: strptime_Ymd_def)
  then show ?thesis by simp
qed

lemma digit_val_hyphen: "digit_val CHR ''-'' = None"
  by (simp add: digit_val_def decimal_digits_def)

lemma digit_val_space: "digit_val CHR '' '' = None"
  by (simp add: digit_val_def decimal_digits_def)

lemma digits_to_nat_one: "digits_to_nat [a] = digit_val a"
  by (simp add: digits_to_nat_def split: option.splits)

lemma digits_to_nat_two_eq:
  "digits_to_nat [a, b] =
     (case (digit_val a, digit_val b) of (Some x, Some y) \<Rightarrow> Some (10 * x + y) | _ \<Rightarrow> None)"
  by (simp add: digits_to_nat_def split: option.splits)

lemma digits_to_nat_four_eq:
  "digits_to_nat [a, b, c, e] =
     (case (digit_val a, digit_val b, digit_val c, digit_val e) of
        (Some w, Some x, Some y, Some z) \<Rightarrow> Some (1000 * w + 100 * x + 10 * y + z)
      | _ \<Rightarrow> None)"
  by (simp add: digits_to_nat_def split: option.splits)

lemma month_group_field:
  "month_group ms = Some m \<longleftrightarrow> short_field ms = Some m \<and> 1 \<le> m \<and> m \<le> 12"
proof (cases ms)
  case Nil
  then show ?thesis by (simp add: month_group_def short_field_def)
next
  case (Cons a as)
  note ms = this
  show ?thesis
  proof (cases as)
    case Nil
    with ms show ?thesis
      by (auto simp: month_group_def short_field_def digits_to_nat_one
          split: option.splits dest: digit_val_range)
  next
    case (Cons b bs)
    note as = this
    show ?thesis
    proof (cases bs)
      case Nil
      with ms as show ?thesis
        by (auto simp: month_group_def short_field_def digits_to_nat_two_eq
            split: option.splits dest: digit_val_range)
    next
      case (Cons c cs)
      with ms as show ?thesis
        by (simp add: month_group_def short_field_def)
    qed
  qed
qed

lemma day_group_field:
  "day_group ds = Some d \<longleftrightarrow> day_field ds = Some d \<and> 1 \<le> d \<and> d \<le> 31"
proof (cases ds)
  case Nil
  then show ?thesis by (simp add: day_group_def day_field_def short_field_def)
next
  case (Cons a as)
  note ds = this
  show ?thesis
  proof (cases as)
    case Nil
    with ds show ?thesis
      by (auto simp: day_group_def day_field_def short_field_def digits_to_nat_one
          split: option.splits dest: digit_val_range)
  next
    case (Cons b bs)
    note as = this
    show ?thesis
    proof (cases bs)
      case Nil
      with ds as show ?thesis
        by (auto simp: day_group_def day_field_def digits_to_nat_two_eq digit_val_space
            split: option.splits dest: digit_val_range)
    next
      case (Cons c cs)
      with ds as show ?thesis
        by (simp add: day_group_def day_field_def short_field_def)
    qed
  qed
qed

lemma split_on_fields: "f \<in> set (split_on c s) \<Longrightarrow> c \<notin> set f"
proof (induction s arbitrary: f)
  case Nil
  then show ?case by simp
next
  case (Cons x xs)
  obtain p ps where sp: "split_on c xs = p # ps"
    using split_on_not_Nil [of c xs] by (cases "split_on c xs") auto
  show ?case
  proof (cases "x = c")
    case True
    with Cons show ?thesis by auto
  next
    case False
    with Cons.prems sp have "f = x # p \<or> f \<in> set ps"
      by auto
    moreover have "c \<notin> set p" and "\<forall>q\<in>set ps. c \<notin> set q"
      using Cons.IH sp by auto
    ultimately show ?thesis
      using False by auto
  qed
qed

lemma strptime_no_hyphen: "CHR ''-'' \<notin> set s \<Longrightarrow> strptime_Ymd s = None"
  by (auto simp: strptime_Ymd_def split: list.splits option.splits)

lemma strptime_shape:
  "strptime_Ymd s \<noteq> None \<Longrightarrow>
   \<exists>y1 y2 y3 y4 rest. s = y1 # y2 # y3 # y4 # CHR ''-'' # rest \<and>
     y1 \<noteq> CHR ''-'' \<and> y2 \<noteq> CHR ''-'' \<and> y3 \<noteq> CHR ''-'' \<and> y4 \<noteq> CHR ''-''"
  by (auto simp: strptime_Ymd_def digit_val_hyphen split: list.splits option.splits if_splits)

lemma strptime_short_year:
  assumes "length ys < 4"
  shows "strptime_Ymd (ys @ CHR ''-'' # rest) = None"
proof (rule ccontr)
  assume "strptime_Ymd (ys @ CHR ''-'' # rest) \<noteq> None"
  then obtain y1 y2 y3 y4 r where
    s: "ys @ CHR ''-'' # rest = y1 # y2 # y3 # y4 # CHR ''-'' # r"
    and n: "y1 \<noteq> CHR ''-''" "y2 \<noteq> CHR ''-''" "y3 \<noteq> CHR ''-''" "y4 \<noteq> CHR ''-''"
    using strptime_shape by blast
  let ?s = "y1 # y2 # y3 # y4 # CHR ''-'' # r"
  from s have "?s ! length ys = CHR ''-''"
    by (metis nth_append_length)
  moreover from assms have "length ys = 0 \<or> length ys = 1 \<or> length ys = 2 \<or> length ys = 3"
    by arith
  ultimately show False
    using n by auto
qed

lemma strptime_long_year:
  assumes "4 < length ys" and "CHR ''-'' \<notin> set ys"
  shows "strptime_Ymd (ys @ CHR ''-'' # rest) = None"
proof (rule ccontr)
  assume "strptime_Ymd (ys @ CHR ''-'' # rest) \<noteq> None"
  then obtain y1 y2 y3 y4 r where
    s: "ys @ CHR ''-'' # rest = y1 # y2 # y3 # y4 # CHR ''-'' # r"
    using strptime_shape by blast
  from assms(1) have "(ys @ CHR ''-'' # rest) ! 4 = ys ! 4"
    by (simp add: nth_append)
  with s have "ys ! 4 = CHR ''-''"
    by simp
  with assms show False
    by (metis nth_mem)
qed

lemma strptime_year_field:
  assumes "CHR ''-'' \<notin> set ys"
  shows "strptime_Ymd (ys @ CHR ''-'' # rest) =
     (case year_field ys of
        None \<Rightarrow> None
      | Some y \<Rightarrow>
          (case dropWhile (\<lambda>x. x \<noteq> CHR ''-'') rest of
             [] \<Rightarrow> None
           | h # ds \<Rightarrow>
               (case (month_group (takeWhile (\<lambda>x. x \<noteq> CHR ''-'') rest), day_group ds) of
                  (Some mo, Some dy) \<Rightarrow> if valid_date y mo dy then Some (y, mo, dy) else None
                | _ \<Rightarrow> None)))"
proof -
  consider "length ys < 4" | "4 < length ys" | "length ys = 4"
    by linarith
  then show ?thesis
  proof cases
    case 1
    then show ?thesis
      by (simp add: strptime_short_year year_field_def)
  next
    case 2
    with assms show ?thesis
      by (simp add: strptime_long_year year_field_def)
  next
    case 3
    then obtain a b c e where ys: "ys = [a, b, c, e]"
      by (auto simp: length_Suc_conv eval_nat_numeral)
    show ?thesis
      unfolding ys
      by (cases "digit_val a"; cases "digit_val b"; cases "digit_val c"; cases "digit_val e";
          cases "dropWhile (\<lambda>x. x \<noteq> CHR ''-'') rest")
         (simp_all add: strptime_Ymd_def year_field_def digits_to_nat_four_eq Let_def
            del: dropWhile_eq_Nil_conv split: option.splits)
  qed
qed

lemma strptime_three_fields:
  assumes "CHR ''-'' \<notin> set a" and "CHR ''-'' \<notin> set b"
  shows "strptime_Ymd (a @ CHR ''-'' # b @ CHR ''-'' # c) \<noteq> None \<longleftrightarrow>
         (\<exists>y m d. year_field a = Some y \<and> short_field b = Some m \<and> day_field c = Some d \<and>
                  valid_date y m d)"
proof -
  let ?P = "\<lambda>x. x \<noteq> CHR ''-''"
  from assms(2) have "\<forall>x\<in>set b. ?P x"
    by auto
  then have tw: "takeWhile ?P (b @ CHR ''-'' # c) = b"
    by (simp add: takeWhile_tail)
  from assms(2) have "\<forall>x\<in>set b. ?P x"
    by auto
  then have dw: "dropWhile ?P (b @ CHR ''-'' # c) = CHR ''-'' # c"
    by (simp add: dropWhile_append3)
  have "strptime_Ymd (a @ CHR ''-'' # b @ CHR ''-'' # c) \<noteq> None \<longleftrightarrow>
        (\<exists>y m d. year_field a = Some y \<and> month_group b = Some m \<and> day_group c = Some d \<and>
                 valid_date y m d)"
    by (simp add: strptime_year_field [OF assms(1)] tw dw split: option.splits)
  also have "\<dots> \<longleftrightarrow>
        (\<exists>y m d. year_field a = Some y \<and> short_field b = Some m \<and> day_field c = Some d \<and>
                 valid_date y m d)"
  proof -
    have "month_group b = Some m \<and> day_group c = Some d \<longleftrightarrow>
          short_field b = Some m \<and> day_field c = Some d" if "valid_date y m d" for y m d
    proof -
      from that have "1 \<le> m" "m \<le> 12" "1 \<le> d" "d \<le> days_in_month y m"
        by (simp_all add: valid_date_def)
      moreover have "days_in_month y m \<le> 31"
        by (rule days_in_month_le)
      ultimately show ?thesis
        by (simp add: month_group_field day_group_field)
    qed
    then show ?thesis by blast
  qed
  finally show ?thesis .
qed

lemma strptime_accepts: "strptime_Ymd (date_part gid) \<noteq> None \<longleftrightarrow> accepted_id_format gid"
proof -
  let ?fs = "split_on CHR ''-'' gid"
  have free: "\<forall>f\<in>set ?fs. CHR ''-'' \<notin> set f"
    using split_on_fields by blast
  consider a where "?fs = [a]" | a b where "?fs = [a, b]" | a b c rest where "?fs = a # b # c # rest"
    using split_on_not_Nil [of "CHR ''-''" gid] by (metis list.exhaust)
  then show ?thesis
  proof cases
    case 1
    with free have "CHR ''-'' \<notin> set a" by simp
    with 1 show ?thesis
      by (simp add: date_part_def accepted_id_format_def strptime_no_hyphen)
  next
    case 2
    with free have a: "CHR ''-'' \<notin> set a" and b: "CHR ''-'' \<notin> set b" by simp_all
    from b have "dropWhile (\<lambda>x. x \<noteq> CHR ''-'') b = []"
      by auto
    with 2 show ?thesis
      by (simp add: date_part_def accepted_id_format_def strptime_year_field [OF a]
          del: dropWhile_eq_Nil_conv split: option.splits)
  next
    case 3
    with free have a: "CHR ''-'' \<notin> set a" and b: "CHR ''-'' \<notin> set b" by simp_all
    from 3 have dp: "date_part gid = a @ CHR ''-'' # b @ CHR ''-'' # c"
      by (simp add: date_part_def)
    from 3 have "accepted_id_format gid \<longleftrightarrow>
        (\<exists>y m d. year_field a = Some y \<and> short_field b = Some m \<and> day_field c = Some d \<and>
                 valid_date y m d)"
      by (auto simp: accepted_id_format_def split: option.splits)
    with strptime_three_fields [OF a b, of c] dp show ?thesis
      by simp
  qed
qed

lemma spec_format_is_accepted: "spec_id_format gid \<Longrightarrow> accepted_id_format gid"
  using spec_format_accepted strptime_accepts by blast

lemma create_gathering_rejected:
  "\<not> accepted_id_format gid \<Longrightarrow> create_gathering d gid n = (Inl InvalidId, d)"
  using strptime_accepts [of gid] by (simp add: create_gathering_def)

lemma create_gathering_fresh:
  assumes "accepted_id_format gid" and "d gid = None" and "fits_integer_column n"
  shows "\<exists>g. create_gathering d gid n = (Inr (Some g), d(gid \<mapsto> g)) \<and>
             gathering_id g = gid \<and> status g = OPEN \<and> total_members g = n \<and>
             map name (members g) = map placeholder_name [1..n]"
  using assms strptime_accepts [of gid]
  by (auto simp: create_gathering_def Let_def get_gathering_def comp_def)

lemma create_gathering_overflow:
  assumes "accepted_id_format gid" and "d gid = None" and "\<not> fits_integer_column n"
  shows "create_gathering d gid n = (Inl OverflowError, d)"
  using assms strptime_accepts [of gid]
  by (auto simp: create_gathering_def)

text \<open>
  C5, as amended. For an id of ASCII characters, \<open>create_gathering\<close> fails with
  \<open>InvalidId\<close> exactly when the id is not in the accepted format: at least three
  hyphen-separated fields, a year of four digits, a month of one or two digits, a day of
  one or two digits or a space and a digit, together a date of the calendar. A rejected
  call leaves the database as it was. Every id in the exact form YYYY-MM-DD, hyphen,
  suffix with a date of the calendar is accepted. An accepted id that is not present yet
  is created when the member count fits the 64-bit column: open, with the count given
  and the placeholders numbered from 1; when the count does not fit, the call fails with
  \<open>OverflowError\<close> and stores nothing.
\<close>

theorem create_gathering_id_check:
  assumes "ascii_id gid"
  shows "(fst (create_gathering d gid n) = Inl InvalidId \<longleftrightarrow> \<not> accepted_id_format gid) \<and>
   (\<not> accepted_id_format gid \<longrightarrow> create_gathering d gid n = (Inl InvalidId, d)) \<and>
   (spec_id_format gid \<longrightarrow> accepted_id_format gid) \<and>
   (accepted_id_format gid \<and> d gid = None \<and> fits_integer_column n \<longrightarrow>
      (\<exists>g. create_gathering d gid n = (Inr (Some g), d(gid \<mapsto> g)) \<and>
           gathering_id g = gid \<and> status g = OPEN \<and> total_members g = n \<and>
           map name (members g) = map placeholder_name [1..n])) \<and>
   (accepted_id_format gid \<and> d gid = None \<and> \<not> fits_integer_column n \<longrightarrow>
      create_gathering d gid n = (Inl OverflowError, d))"
proof (intro conjI impI)
  show "fst (create_gathering d gid n) = Inl InvalidId \<longleftrightarrow> \<not> accepted_id_format gid"
    using strptime_accepts [of gid]
    by (auto simp: create_gathering_def Let_def split: option.splits)
  show "create_gathering d gid n = (Inl InvalidId, d)" if "\<not> accepted_id_format gid"
    using that by (rule create_gathering_rejected)
  show "accepted_id_format gid" if "spec_id_format gid"
    using that by (rule spec_format_is_accepted)
  show "\<exists>g. create_gathering d gid n = (Inr (Some g), d(gid \<mapsto> g)) \<and>
           gathering_id g = gid \<and> status g = OPEN \<and> total_members g = n \<and>
           map name (members g) = map placeholder_name [1..n]"
    if "accepted_id_format gid \<and> d gid = None \<and> fits_integer_column n"
    using that create_gathering_fresh by blast
  show "create_gathering d gid n = (Inl OverflowError, d)"
    if "accepted_id_format gid \<and> d gid = None \<and> \<not> fits_integer_column n"
    using that create_gathering_overflow by blast
qed

theorem create_gathering_id_check_witness:
  "spec_id_format ''2025-03-01-friendsbeer'' \<and>
   accepted_id_format ''2025-03-01-friendsbeer'' \<and>
   (\<exists>g. create_gathering Map.empty ''2025-03-01-friendsbeer'' 5 =
          (Inr (Some g), [''2025-03-01-friendsbeer'' \<mapsto> g]) \<and>
        gathering_id g = ''2025-03-01-friendsbeer'' \<and> status g = OPEN \<and> total_members g = 5 \<and>
        map name (members g) =
          [''member0001'', ''member0002'', ''member0003'', ''member0004'', ''member0005'']) \<and>
   create_gathering Map.empty ''badid'' 3 = (Inl InvalidId, Map.empty) \<and>
   create_gathering Map.empty ''2025-02-30-x'' 3 = (Inl InvalidId, Map.empty) \<and>
   create_gathering Map.empty ''2025-03-01-x'' (- (2 ^ 63) - 1) = (Inl OverflowError, Map.empty)"
proof -
  have f: "spec_id_format ''2025-03-01-friendsbeer''"
    by code_simp
  have asc: "ascii_id ''2025-03-01-friendsbeer''" "ascii_id ''badid''" "ascii_id ''2025-02-30-x''"
    "ascii_id ''2025-03-01-x''"
    by (simp_all add: ascii_id_def)
  have names: "map placeholder_name [1..5] =
      [''member0001'', ''member0002'', ''member0003'', ''member0004'', ''member0005'']"
    by code_simp
  have bad: "\<not> accepted_id_format ''badid''"
    by code_simp
  have feb: "\<not> accepted_id_format ''2025-02-30-x''"
    by code_simp
  have ok: "accepted_id_format ''2025-03-01-x''"
    by code_simp
  have big: "\<not> fits_integer_column (- (2 ^ 63) - 1)" and five: "fits_integer_column 5"
    by (simp_all add: fits_integer_column_def)
  have acc: "accepted_id_format ''2025-03-01-friendsbeer''"
    using create_gathering_id_check [OF asc(1)] f by blast
  have a: "\<exists>g. create_gathering Map.empty ''2025-03-01-friendsbeer'' 5 =
          (Inr (Some g), [''2025-03-01-friendsbeer'' \<mapsto> g]) \<and>
        gathering_id g = ''2025-03-01-friendsbeer'' \<and> status g = OPEN \<and> total_members g = 5 \<and>
        map name (members g) =
          [''member0001'', ''member0002'', ''member0003'', ''member0004'', ''member0005'']"
    using create_gathering_id_check [OF asc(1), of Map.empty 5] acc five names
    by simp
  have b: "create_gathering Map.empty ''badid'' 3 = (Inl InvalidId, Map.empty)"
    using create_gathering_id_check [OF asc(2), of Map.empty 3] bad by blast
  have c: "create_gathering Map.empty ''2025-02-30-x'' 3 = (Inl InvalidId, Map.empty)"
    using create_gathering_id_check [OF asc(3), of Map.empty 3] feb by blast
  have e: "create_gathering Map.empty ''2025-03-01-x'' (- (2 ^ 63) - 1) = (Inl OverflowError, Map.empty)"
    using create_gathering_id_check [OF asc(4), of Map.empty "- (2 ^ 63) - 1"] ok big by simp
  from f acc a b c e show ?thesis
    by (intro conjI)
qed

text \<open>
  C5 as stated fails in both directions it denies: \<open>2025-03-01\<close> has no hyphen and
  suffix after the date, \<open>2025-3-1-x\<close> has a one-digit month and day; neither is in the
  exact form, and \<open>create_gathering\<close> accepts both.
\<close>

theorem create_gathering_id_counterexample:
  "\<not> spec_id_format ''2025-03-01'' \<and>
   create_gathering Map.empty ''2025-03-01'' 0 =
     (Inr (Some \<lparr>gathering_id = ''2025-03-01'', total_members = 0, status = OPEN, members = []\<rparr>),
      [''2025-03-01'' \<mapsto>
         \<lparr>gathering_id = ''2025-03-01'', total_members = 0, status = OPEN, members = []\<rparr>]) \<and>
   \<not> spec_id_format ''2025-3-1-x'' \<and>
   create_gathering Map.empty ''2025-3-1-x'' 0 =
     (Inr (Some \<lparr>gathering_id = ''2025-3-1-x'', total_members = 0, status = OPEN, members = []\<rparr>),
      [''2025-3-1-x'' \<mapsto>
         \<lparr>gathering_id = ''2025-3-1-x'', total_members = 0, status = OPEN, members = []\<rparr>])"
proof -
  have a: "\<not> spec_id_format ''2025-03-01''"
    by code_simp
  have b: "\<not> spec_id_format ''2025-3-1-x''"
    by code_simp
  have c: "strptime_Ymd (date_part ''2025-03-01'') = Some (2025, 3, 1)"
    by code_simp
  have e: "strptime_Ymd (date_part ''2025-3-1-x'') = Some (2025, 3, 1)"
    by code_simp
  from a b c e show ?thesis
    by (simp add: create_gathering_def get_gathering_def Let_def fits_integer_column_def)
qed

end
